theory Spec2Isabelle
  imports Complex_Main "HOL-Library.AList" "HOL-Library.Char_ord" "HOL-Library.List_Lexorder"
begin

section \<open>The job repository of cc-backend (internal/repository/job.go)\<close>

text \<open>
  A shallow embedding of \<^verbatim>\<open>src/internal/repository/job.go\<close>. The SQL database is a pair of
  in-memory tables; a statement built with squirrel becomes a filter or a map over the rows
  of a table, in table order. Statements fail only where SQL itself makes them fail (no row
  for \<^verbatim>\<open>QueryRow\<close>, an unknown table or column, a cast to an empty type name); faults of
  the engine (a lost connection, a full disk) are not modelled. Go's \<^verbatim>\<open>int\<close>,
  \<^verbatim>\<open>int32\<close> and \<^verbatim>\<open>int64\<close> are \<open>int\<close>: no claim depends on wrap-around.
  The clock is a parameter \<open>now\<close>, the reading of \<^verbatim>\<open>time.Now()\<close> in nanoseconds
  since the epoch.
\<close>

subsection \<open>Errors and panics\<close>

text \<open>
  \<^verbatim>\<open>sql.ErrNoRows\<close>, the two errors job.go declares (\<^verbatim>\<open>ErrNotFound\<close>,
  \<^verbatim>\<open>ErrForbidden\<close>), and every other error value with its message.
\<close>

datatype error = ErrNoRows | ErrNotFound | ErrForbidden | ErrOther string

text \<open>A Go call either returns or panics at run time (nil dereference, slice out of range).\<close>

datatype 'a outcome = Return 'a | Panic

subsection \<open>Time\<close>

type_synonym Time = int

definition Unix :: "Time \<Rightarrow> int" where
  "Unix now = now div 1000000000"


subsection \<open>Stored documents\<close>

text \<open>
  Modelled from the spec: \<^verbatim>\<open>schema.Resource\<close> (pkg/schema is not among the sources), an
  entry of the ordered resource allocation of a job: hostname and allocated device indices.
\<close>

record Resource =
  Hostname :: string
  HWThreads :: "int list"
  Accelerators :: "string list"

text \<open>
  The \<^verbatim>\<open>resources\<close> and \<^verbatim>\<open>meta_data\<close> columns hold serialized JSON. A stored
  document is its bytes together with what \<^verbatim>\<open>encoding/json\<close> reads from them: the
  literal \<^verbatim>\<open>null\<close>, an object whose members are all strings (members in document
  order), an array of resources, or anything else. \<^verbatim>\<open>LIKE\<close> and \<^verbatim>\<open>len\<close> look
  at the bytes, \<^verbatim>\<open>json.Unmarshal\<close> at the reading.
\<close>

datatype json_value =
    JNull
  | JObject "(string \<times> string) list"
  | JArray "Resource list"
  | JOther

record blob =
  bytes :: string
  parsed :: json_value

subsection \<open>The tables\<close>

text \<open>
  Modelled from the spec: the monitoring status codes of pkg/schema (not among the sources):
  pending/running, archiving-failed, archiving-successful.
\<close>

datatype MonitoringStatus =
    MonitoringStatusRunningOrArchiving
  | MonitoringStatusArchivingFailed
  | MonitoringStatusArchivingSuccessful


definition JobStateFailed :: string where
  "JobStateFailed = ''failed''"

text \<open>
  A row of table \<^verbatim>\<open>job\<close>: field \<open>job_X\<close> is column \<^verbatim>\<open>job.X\<close> (so \<open>job_id\<close> is the
  primary key \<^verbatim>\<open>job.id\<close> and \<open>job_job_id\<close> the scheduler's \<^verbatim>\<open>job.job_id\<close>). The
  metadata column may be NULL; the last six columns are the summary statistics written by
  \<^verbatim>\<open>MarkArchived\<close>.
\<close>

record job_row =
  job_id :: int
  job_job_id :: int
  job_user :: string
  job_project :: string
  job_cluster :: string
  job_subcluster :: string
  job_start_time :: int
  job_partition :: string
  job_array_job_id :: int
  job_num_nodes :: int
  job_num_hwthreads :: int
  job_num_acc :: int
  job_exclusive :: int
  job_monitoring_status :: MonitoringStatus
  job_smt :: int
  job_job_state :: string
  job_duration :: int
  job_walltime :: int
  job_resources :: blob
  job_meta_data :: "blob option"
  job_flops_any_avg :: "real option"
  job_mem_used_max :: "real option"
  job_mem_bw_avg :: "real option"
  job_load_avg :: "real option"
  job_net_bw_avg :: "real option"
  job_file_bw_avg :: "real option"

text \<open>
  A row of table \<^verbatim>\<open>user\<close>, with the two columns job.go reads: \<^verbatim>\<open>user.username\<close> and
  \<^verbatim>\<open>user.name\<close>.
\<close>

record user_row =
  user_username :: string
  user_name :: string

record database =
  jobs :: "job_row list"
  users :: "user_row list"

subsection \<open>StopJobsExceedingWalltimeBy\<close>

text \<open>
  The \<^verbatim>\<open>WHERE\<close> clauses of the update, and its three \<^verbatim>\<open>SET\<close> clauses.
\<close>

definition exceeds_walltime :: "Time \<Rightarrow> int \<Rightarrow> job_row \<Rightarrow> bool" where
  "exceeds_walltime now seconds row =
     (job_job_state row = ''running'' \<and> job_walltime row > 0 \<and>
      (Unix now - job_start_time row) > (job_walltime row + seconds))"

definition mark_stopped :: "job_row \<Rightarrow> job_row" where
  "mark_stopped row =
     row\<lparr>job_monitoring_status := MonitoringStatusArchivingFailed,
         job_duration := 0,
         job_job_state := JobStateFailed\<rparr>"

definition StopJobsExceedingWalltimeBy :: "Time \<Rightarrow> database \<Rightarrow> int \<Rightarrow> database \<times> error option" where
  "StopJobsExceedingWalltimeBy now db seconds =
     (db\<lparr>jobs := map (\<lambda>row. if exceeds_walltime now seconds row then mark_stopped row else row)
                     (jobs db)\<rparr>,
      None)"

subsection \<open>SQL helpers\<close>

text \<open>\<^verbatim>\<open>QueryRow\<close> followed by \<^verbatim>\<open>Scan\<close>: the first row of the result, or \<^verbatim>\<open>sql.ErrNoRows\<close>.\<close>

definition QueryRow :: "'a list \<Rightarrow> error + 'a" where
  "QueryRow rows = (case rows of [] \<Rightarrow> Inl ErrNoRows | row # _ \<Rightarrow> Inr row)"

text \<open>
  \<^verbatim>\<open>text LIKE pattern\<close>: \<^verbatim>\<open>%\<close> matches any run of characters, \<^verbatim>\<open>_\<close> any one character.
  Characters are compared as they are (the engines fold the case of ASCII letters, depending
  on collation; no claim below depends on it).
\<close>

fun like_match :: "string \<Rightarrow> string \<Rightarrow> bool" where
  "like_match [] s = (s = [])"
| "like_match (p # ps) s =
     (if p = CHR ''%'' then
        (like_match ps s \<or> (case s of [] \<Rightarrow> False | _ # t \<Rightarrow> like_match (p # ps) t))
      else
        (case s of [] \<Rightarrow> False
         | c # t \<Rightarrow> (p = CHR ''_'' \<or> p = c) \<and> like_match ps t))"

text \<open>\<^verbatim>\<open>SELECT DISTINCT\<close> and \<^verbatim>\<open>GROUP BY\<close>: each value once, in the order of first occurrence.\<close>

fun sql_distinct :: "'a list \<Rightarrow> 'a list" where
  "sql_distinct [] = []"
| "sql_distinct (x # xs) = x # sql_distinct (filter (\<lambda>y. y \<noteq> x) xs)"

text \<open>A NULL column matches no pattern.\<close>

definition blob_like :: "string \<Rightarrow> blob option \<Rightarrow> bool" where
  "blob_like pattern col = (case col of None \<Rightarrow> False | Some b \<Rightarrow> like_match pattern (bytes b))"

text \<open>
  The text columns of the two tables by name, for statements whose table and column names
  are put together from strings (\<^verbatim>\<open>FindColumnValue\<close>). \<open>None\<close> is a name the model
  does not know: the statement fails. The numeric, blob and statistics columns are left
  out: job.go never selects them through this path.
\<close>

definition job_text_column :: "string \<Rightarrow> (job_row \<Rightarrow> string) option" where
  "job_text_column c =
     (if c = ''user'' then Some job_user
      else if c = ''project'' then Some job_project
      else if c = ''cluster'' then Some job_cluster
      else if c = ''subcluster'' then Some job_subcluster
      else if c = ''partition'' then Some job_partition
      else if c = ''job_state'' then Some job_job_state
      else None)"

definition user_text_column :: "string \<Rightarrow> (user_row \<Rightarrow> string) option" where
  "user_text_column c =
     (if c = ''username'' then Some user_username
      else if c = ''name'' then Some user_name
      else None)"

text \<open>
  \<^verbatim>\<open>SELECT t.sel, t.wh FROM t\<close>: per row of table \<open>t\<close> the pair of the selected and the
  compared column.
\<close>

definition select_columns :: "database \<Rightarrow> string \<Rightarrow> string \<Rightarrow> string \<Rightarrow> error + (string \<times> string) list" where
  "select_columns db table selectColumn whereColumn =
     (if table = ''job'' then
        (case (job_text_column selectColumn, job_text_column whereColumn) of
           (Some sel, Some wh) \<Rightarrow> Inr (map (\<lambda>row. (sel row, wh row)) (jobs db))
         | _ \<Rightarrow> Inl (ErrOther ''no such column''))
      else if table = ''user'' then
        (case (user_text_column selectColumn, user_text_column whereColumn) of
           (Some sel, Some wh) \<Rightarrow> Inr (map (\<lambda>row. (sel row, wh row)) (users db))
         | _ \<Rightarrow> Inl (ErrOther ''no such column''))
      else Inl (ErrOther ''no such table''))"

subsection \<open>Formatting and parsing integers\<close>

fun digits :: "nat \<Rightarrow> string" where
  "digits n = (if n < 10 then [char_of (48 + n)] else digits (n div 10) @ [char_of (48 + n mod 10)])"

text \<open>\<^verbatim>\<open>fmt.Sprintf("%d", i)\<close>.\<close>

definition fmt_d :: "int \<Rightarrow> string" where
  "fmt_d i = (if i < 0 then CHR ''-'' # digits (nat (- i)) else digits (nat i))"

definition is_digit :: "char \<Rightarrow> bool" where
  "is_digit c = (CHR ''0'' \<le> c \<and> c \<le> CHR ''9'')"

definition digits_value :: "string \<Rightarrow> nat" where
  "digits_value ds = fold (\<lambda>c n. 10 * n + (of_char c - 48)) ds 0"

text \<open>
  \<^verbatim>\<open>strconv.Atoi\<close> on a 64-bit platform: an optional sign, then one or more decimal
  digits, and the value must fit \<^verbatim>\<open>int\<close>.
\<close>

definition Atoi :: "string \<Rightarrow> error + int" where
  "Atoi s =
     (let (neg, ds) = (case s of
                         c # t \<Rightarrow> if c = CHR ''-'' then (True, t)
                                   else if c = CHR ''+'' then (False, t) else (False, s)
                       | [] \<Rightarrow> (False, s))
      in if ds = [] \<or> \<not> list_all is_digit ds then Inl (ErrOther ''invalid syntax'')
         else let n = int (digits_value ds)
              in if neg then (if n > 2 ^ 63 then Inl (ErrOther ''value out of range'') else Inr (- n))
                 else (if n \<ge> 2 ^ 63 then Inl (ErrOther ''value out of range'') else Inr n))"

subsection \<open>Callers and roles\<close>

text \<open>
  Modelled from the spec: the roles and the user of internal/auth (not among the sources).
  A caller has a set of roles out of administrator, support, manager and plain user;
  \<^verbatim>\<open>HasAnyRole\<close> holds when the caller has one of the roles asked for.
\<close>

datatype Role = RoleAdmin | RoleSupport | RoleManager | RoleUser

record auth_User =
  Username :: string
  Name :: string
  Roles :: "Role list"

definition HasAnyRole :: "auth_User \<Rightarrow> Role list \<Rightarrow> bool" where
  "HasAnyRole u queryroles = list_ex (\<lambda>r. r \<in> set (Roles u)) queryroles"

text \<open>
  The request context: the caller \<^verbatim>\<open>auth.GetUser(ctx)\<close> returns (\<open>None\<close> when nobody
  is logged in) and the names of the fields \<^verbatim>\<open>graphql.CollectFieldsCtx\<close> returns.
\<close>

record ctx =
  ctx_user :: "auth_User option"
  ctx_fields :: "string list"

definition GetUser :: "ctx \<Rightarrow> auth_User option" where
  "GetUser c = ctx_user c"

subsection \<open>encoding/json\<close>

text \<open>
  A Go \<^verbatim>\<open>map[string]string\<close> is an object on the heap: the heap is the list of the
  objects allocated so far, a reference is an index into it, and \<open>None\<close> is the nil map.
  The entries of an object are an association list read with \<open>map_of\<close>; an assignment
  \<^verbatim>\<open>m[k] = v\<close> is \<open>AList.update k v\<close>.
\<close>

type_synonym gomap = "(string \<times> string) list"
type_synonym heap = "gomap list"
type_synonym mapref = "nat option"

text \<open>
  \<^verbatim>\<open>json.Unmarshal(raw, &m)\<close> for a map \<open>m\<close>: \<^verbatim>\<open>null\<close> sets \<open>m\<close> to nil; an object
  is read into a new map when \<open>m\<close> is nil and into the existing map otherwise (in place,
  keeping its other entries), a later member of the document overriding an earlier one of
  the same name; anything else is an error.
\<close>

definition Unmarshal_map :: "blob \<Rightarrow> mapref \<Rightarrow> heap \<Rightarrow> error + (mapref \<times> heap)" where
  "Unmarshal_map raw m h =
     (if bytes raw = [] then Inl (ErrOther ''unexpected end of JSON input'')
      else case parsed raw of
        JNull \<Rightarrow> Inr (None, h)
      | JObject kvs \<Rightarrow>
          (case m of
             None \<Rightarrow> Inr (Some (length h), h @ [fold (\<lambda>(k, v). AList.update k v) kvs []])
           | Some a \<Rightarrow> Inr (Some a, h[a := fold (\<lambda>(k, v). AList.update k v) kvs (h ! a)]))
      | _ \<Rightarrow> Inl (ErrOther ''json: cannot unmarshal''))"


text \<open>
  The text \<^verbatim>\<open>json.Marshal\<close> writes for a map: the members sorted by key. (Of the
  characters \<^verbatim>\<open>encoding/json\<close> escapes, the quote and the backslash are escaped here.)
\<close>

definition json_escape :: "char \<Rightarrow> string" where
  "json_escape c =
     (if c = CHR 0x22 then [CHR 0x5C, CHR 0x22]
      else if c = CHR 0x5C then [CHR 0x5C, CHR 0x5C]
      else [c])"

definition json_quote :: "string \<Rightarrow> string" where
  "json_quote s = CHR 0x22 # concat (map json_escape s) @ [CHR 0x22]"

fun join_with :: "string \<Rightarrow> string list \<Rightarrow> string" where
  "join_with sep [] = []"
| "join_with sep [x] = x"
| "join_with sep (x # y # ys) = x @ sep @ join_with sep (y # ys)"

definition json_text :: "gomap \<Rightarrow> string" where
  "json_text kvs =
     ''{'' @ join_with '','' (map (\<lambda>(k, v). json_quote k @ '':'' @ json_quote v) kvs) @ ''}''"


subsection \<open>The job struct, the result cache and the repository\<close>

text \<open>
  \<^verbatim>\<open>schema.Job\<close> with the fields job.go reads and writes (pkg/schema is not among the
  sources): the nineteen scanned columns, the decoded resources, the start time as a
  \<^verbatim>\<open>time.Time\<close>, the reference to the metadata map and the raw metadata bytes (\<open>None\<close>
  is the nil slice).
\<close>

record Job =
  ID :: int
  JobID :: int
  User :: string
  Project :: string
  Cluster :: string
  SubCluster :: string
  StartTimeUnix :: int
  Partition :: string
  ArrayJobId :: int
  NumNodes :: int
  NumHWThreads :: int
  NumAcc :: int
  Exclusive :: int
  MonitoringStatus :: MonitoringStatus
  SMT :: int
  State :: string
  Duration :: int
  Walltime :: int
  RawResources :: "blob option"
  Resources :: "Resource list"
  StartTime :: Time
  MetaData :: mapref
  RawMetaData :: "blob option"

text \<open>
  Modelled from the spec: the result cache of pkg/lrucache (not among the sources).
  \<^verbatim>\<open>Get\<close> returns the entry if present, \<^verbatim>\<open>Put\<close> inserts or replaces
  unconditionally, \<^verbatim>\<open>Del\<close> invalidates. The entries under the metadata keys are
  references to metadata maps. Expiry after the time to live and eviction at capacity only
  ever remove entries; a property that is to survive them is stated for the cache with
  and without the entry.
\<close>

type_synonym lrucache = "string \<Rightarrow> mapref option"

definition cache_Get :: "lrucache \<Rightarrow> string \<Rightarrow> mapref option" where
  "cache_Get c key = c key"

definition cache_Put :: "lrucache \<Rightarrow> string \<Rightarrow> mapref \<Rightarrow> lrucache" where
  "cache_Put c key v = c(key := Some v)"


text \<open>
  \<^verbatim>\<open>JobRepository\<close>: the database handle (the statement cache only prepares statements
  and is left out), the driver name, the result cache, the archive channel with the jobs
  sent and not yet received, and the counter of the wait group \<^verbatim>\<open>archivePending\<close>.
  \<open>heap\<close> is not a field of the Go struct: it holds the metadata maps the cache and the job
  structs refer to.
\<close>

record JobRepository =
  DB :: database
  driver :: string
  cache :: lrucache
  archiveChannel :: "Job list"
  archivePending :: int
  heap :: heap

subsection \<open>scanJob, Find, FindAll, FindById\<close>







subsection \<open>FetchMetadata, UpdateMetadata\<close>

definition cachekey :: "Job \<Rightarrow> string" where
  "cachekey job = ''metadata:'' @ fmt_d (ID job)"

text \<open>
  Both take the job struct by reference and change it; the model returns the result, the
  job struct and the repository.
\<close>

definition FetchMetadata :: "JobRepository \<Rightarrow> Job \<Rightarrow> (error + mapref) \<times> Job \<times> JobRepository" where
  "FetchMetadata r job =
     (case cache_Get (cache r) (cachekey job) of
        Some cached \<Rightarrow> (Inr cached, job\<lparr>MetaData := cached\<rparr>, r)
      | None \<Rightarrow>
          (case QueryRow (map job_meta_data (filter (\<lambda>row. job_id row = ID job) (jobs (DB r)))) of
             Inl err \<Rightarrow> (Inl err, job, r)
           | Inr raw \<Rightarrow>
               (let job = job\<lparr>RawMetaData := raw\<rparr>
                in case raw of
                     None \<Rightarrow> (Inr None, job, r)
                   | Some b \<Rightarrow>
                       if length (bytes b) = 0 then (Inr None, job, r)
                       else (case Unmarshal_map b (MetaData job) (heap r) of
                               Inl err \<Rightarrow> (Inl err, job, r)
                             | Inr (m, h) \<Rightarrow>
                                 (let job = job\<lparr>MetaData := m\<rparr>;
                                      r = r\<lparr>heap := h\<rparr>;
                                      r = r\<lparr>cache := cache_Put (cache r) (cachekey job) (MetaData job)\<rparr>
                                  in (Inr (MetaData job), job, r))))))"




subsection \<open>UpdateMonitoringStatus, MarkArchived\<close>

definition UpdateMonitoringStatus :: "database \<Rightarrow> int \<Rightarrow> MonitoringStatus \<Rightarrow> database \<times> error option" where
  "UpdateMonitoringStatus db job monitoringStatus =
     (db\<lparr>jobs := map (\<lambda>row. if job_id row = job
                             then row\<lparr>job_monitoring_status := monitoringStatus\<rparr> else row)
                     (jobs db)\<rparr>,
      None)"

text \<open>
  Modelled from the spec: \<^verbatim>\<open>schema.JobStatistics\<close>, the average, minimum and maximum of
  a metric, and the \<^verbatim>\<open>schema.JobMeta\<close> the archive client returns, of which the worker
  reads the statistics: a map from metric name to statistics, here the list of its entries.
\<close>

record JobStatistics =
  Avg :: real
  Min' :: real
  Max' :: real

record JobMeta =
  Statistics :: "(string \<times> JobStatistics) list"

text \<open>The \<^verbatim>\<open>switch\<close> of \<^verbatim>\<open>MarkArchived\<close>: the \<^verbatim>\<open>SET\<close> clause a metric adds.\<close>

definition set_metric :: "string \<times> JobStatistics \<Rightarrow> job_row \<Rightarrow> job_row" where
  "set_metric ms row =
     (let metric = fst ms; stats = snd ms
      in if metric = ''flops_any'' then row\<lparr>job_flops_any_avg := Some (Avg stats)\<rparr>
         else if metric = ''mem_used'' then row\<lparr>job_mem_used_max := Some (Max' stats)\<rparr>
         else if metric = ''mem_bw'' then row\<lparr>job_mem_bw_avg := Some (Avg stats)\<rparr>
         else if metric = ''load'' then row\<lparr>job_load_avg := Some (Avg stats)\<rparr>
         else if metric = ''net_bw'' then row\<lparr>job_net_bw_avg := Some (Avg stats)\<rparr>
         else if metric = ''file_bw'' then row\<lparr>job_file_bw_avg := Some (Avg stats)\<rparr>
         else row)"

definition MarkArchived :: "database \<Rightarrow> int \<Rightarrow> MonitoringStatus \<Rightarrow> (string \<times> JobStatistics) list \<Rightarrow> database \<times> error option" where
  "MarkArchived db jobId monitoringStatus metricStats =
     (db\<lparr>jobs := map (\<lambda>row. if job_id row = jobId
                             then fold set_metric metricStats
                                    (row\<lparr>job_monitoring_status := monitoringStatus\<rparr>)
                             else row)
                     (jobs db)\<rparr>,
      None)"

subsection \<open>The archiving worker\<close>

text \<open>
  The archive client \<^verbatim>\<open>metricdata.ArchiveJob\<close> is an external collaborator: a parameter,
  which may look at the job and at everything the repository holds.
\<close>

type_synonym archive_client = "JobRepository \<Rightarrow> Job \<Rightarrow> error + JobMeta"

text \<open>\<^verbatim>\<open>archivePending.Done()\<close>: the counter of a wait group must not become negative.\<close>

definition Done :: "JobRepository \<Rightarrow> JobRepository outcome" where
  "Done r = (if archivePending r - 1 < 0 then Panic
             else Return (r\<lparr>archivePending := archivePending r - 1\<rparr>))"

text \<open>
  The body of the worker's loop for a job received from the channel. Each
  \<^verbatim>\<open>continue\<close> ends the body where it stands; only the last line calls \<^verbatim>\<open>Done\<close>.
\<close>

definition archive_job :: "archive_client \<Rightarrow> Job \<Rightarrow> JobRepository \<Rightarrow> JobRepository outcome" where
  "archive_job ArchiveJob job0 r0 =
     (case FetchMetadata r0 job0 of
        (Inl err, job, r) \<Rightarrow>
          Return (r\<lparr>DB := fst (UpdateMonitoringStatus (DB r) (ID job) MonitoringStatusArchivingFailed)\<rparr>)
      | (Inr _, job, r) \<Rightarrow>
          (case ArchiveJob r job of
             Inl err \<Rightarrow>
               Return (r\<lparr>DB := fst (UpdateMonitoringStatus (DB r) (ID job) MonitoringStatusArchivingFailed)\<rparr>)
           | Inr jobMeta \<Rightarrow>
               (case MarkArchived (DB r) (ID job) MonitoringStatusArchivingSuccessful (Statistics jobMeta) of
                  (db, Some err) \<Rightarrow> Return (r\<lparr>DB := db\<rparr>)
                | (db, None) \<Rightarrow> Done (r\<lparr>DB := db\<rparr>))))"

text \<open>
  The worker's loop: it receives the jobs in the order they were sent and blocks on the
  empty channel, which is where this function returns the state reached. (The channel is
  never closed by job.go.)
\<close>

fun worker_loop :: "archive_client \<Rightarrow> Job list \<Rightarrow> JobRepository \<Rightarrow> JobRepository outcome" where
  "worker_loop ArchiveJob [] r = Return r"
| "worker_loop ArchiveJob (job # rest) r =
     (case archive_job ArchiveJob job (r\<lparr>archiveChannel := rest\<rparr>) of
        Panic \<Rightarrow> Panic
      | Return r' \<Rightarrow> worker_loop ArchiveJob rest r')"

definition archivingWorker :: "archive_client \<Rightarrow> JobRepository \<Rightarrow> JobRepository outcome" where
  "archivingWorker ArchiveJob r = worker_loop ArchiveJob (archiveChannel r) r"

text \<open>
  \<^verbatim>\<open>TriggerArchiving\<close> adds one to the counter and sends the job; the send blocks
  (\<open>None\<close>) while the channel holds 128 jobs. \<^verbatim>\<open>WaitForArchiving\<close> returns when the
  counter is zero and blocks (\<open>None\<close>) otherwise.
\<close>

definition TriggerArchiving :: "JobRepository \<Rightarrow> Job \<Rightarrow> JobRepository option" where
  "TriggerArchiving r job =
     (if length (archiveChannel r) < 128
      then Some (r\<lparr>archivePending := archivePending r + 1,
                   archiveChannel := archiveChannel r @ [job]\<rparr>)
      else None)"

definition WaitForArchiving :: "JobRepository \<Rightarrow> unit option" where
  "WaitForArchiving r = (if archivePending r = 0 then Some () else None)"

subsection \<open>FindColumnValue, FindUserOrProjectOrJobname\<close>

definition FindColumnValue :: "JobRepository \<Rightarrow> auth_User \<Rightarrow> string \<Rightarrow> string \<Rightarrow> string \<Rightarrow> string \<Rightarrow> bool \<Rightarrow> string \<times> error option" where
  "FindColumnValue r user searchterm table selectColumn whereColumn isLike =
     (let query = (if isLike then ''%'' @ searchterm @ ''%'' else searchterm);
          matches = (\<lambda>col. if isLike then like_match query col else col = query)
      in if HasAnyRole user [RoleAdmin, RoleSupport, RoleManager] then
           (case select_columns (DB r) table selectColumn whereColumn of
              Inl err \<Rightarrow> ('''', Some err)
            | Inr rows \<Rightarrow>
                (case QueryRow (sql_distinct (map fst (filter (\<lambda>row. matches (snd row)) rows))) of
                   Inr result \<Rightarrow> (result, None)
                 | Inl err \<Rightarrow> if err \<noteq> ErrNoRows then ('''', Some err) else ('''', Some ErrNotFound)))
         else ('''', Some ErrForbidden))"

text \<open>The result is the tuple (username, project, metasnip, err).\<close>

definition FindUserOrProjectOrJobname :: "JobRepository \<Rightarrow> ctx \<Rightarrow> string \<Rightarrow> (string \<times> string \<times> string \<times> error option) outcome" where
  "FindUserOrProjectOrJobname r c searchterm =
     (case Atoi searchterm of
        Inr _ \<Rightarrow> Return ('''', '''', '''', None)
      | Inl _ \<Rightarrow>
          (case GetUser c of
             None \<Rightarrow> Return ('''', '''', '''', Some ErrNotFound)
           | Some user \<Rightarrow>
               (let uresult = fst (FindColumnValue r user searchterm ''job'' ''user'' ''user'' False)
                in if uresult \<noteq> '''' then Return (uresult, '''', '''', None)
                else let nresult = fst (FindColumnValue r user searchterm ''user'' ''username'' ''name'' True)
                in if nresult \<noteq> '''' then Return (nresult, '''', '''', None)
                else let presult = fst (FindColumnValue r user searchterm ''job'' ''project'' ''project'' False)
                in if presult \<noteq> '''' then Return ('''', presult, '''', None)
                else (case QueryRow (sql_distinct (map job_cluster
                              (filter (\<lambda>row. blob_like (''%'' @ searchterm @ ''%'') (job_meta_data row))
                                 (jobs (DB r))))) of
                        Inr metasnip \<Rightarrow>
                          if length metasnip < 1 then Panic
                          else Return ('''', '''', take 1 metasnip, None)
                      | Inl err \<Rightarrow>
                          if err \<noteq> ErrNoRows then Return ('''', '''', '''', Some err)
                          else Return ('''', '''', '''', Some ErrNotFound)))))"

subsection \<open>JobsStatistics\<close>













text \<open>
  \<^verbatim>\<open>CAST(ROUND(x / 3600) as <castType>)\<close> for an integer \<open>x\<close>, by engine. SQLite divides
  integers with the fraction cut off, and rounding and casting leave the quotient as it is;
  MySQL divides exactly and rounds half away from zero. (MySQL's cast of a negative
  quotient to unsigned is not modelled.)
\<close>

definition sql_round_hours :: "string \<Rightarrow> int \<Rightarrow> int" where
  "sql_round_hours drv x =
     (if drv = ''mysql'' then sgn x * ((\<bar>x\<bar> + 1800) div 3600)
      else sgn x * (\<bar>x\<bar> div 3600))"





















subsection \<open>Sample data\<close>

text \<open>
  A job of user alice, running on subcluster main of cluster fritz since second 1000000
  with a walltime of 3000 seconds; alice as a plain user; a repository with that one job;
  and a configuration with that one cluster.
\<close>

definition sample_row :: job_row where
  "sample_row =
     \<lparr>job_id = 1, job_job_id = 4711, job_user = ''alice'', job_project = ''p1'',
      job_cluster = ''fritz'', job_subcluster = ''main'', job_start_time = 1000000,
      job_partition = ''work'', job_array_job_id = 0, job_num_nodes = 2,
      job_num_hwthreads = 144, job_num_acc = 0, job_exclusive = 1,
      job_monitoring_status = MonitoringStatusRunningOrArchiving, job_smt = 1,
      job_job_state = ''running'', job_duration = 0, job_walltime = 3000,
      job_resources = \<lparr>bytes = ''[]'', parsed = JArray []\<rparr>, job_meta_data = None,
      job_flops_any_avg = None, job_mem_used_max = None, job_mem_bw_avg = None,
      job_load_avg = None, job_net_bw_avg = None, job_file_bw_avg = None\<rparr>"

definition alice :: auth_User where
  "alice = \<lparr>Username = ''alice'', Name = ''Alice'', Roles = [RoleUser]\<rparr>"

definition sample_repo :: JobRepository where
  "sample_repo =
     \<lparr>DB = \<lparr>jobs = [sample_row], users = []\<rparr>, driver = ''sqlite3'', cache = (\<lambda>key. None),
      archiveChannel = [], archivePending = 0, heap = []\<rparr>"


text \<open>A stored metadata document with the job name \<^verbatim>\<open>demo\<close>, as \<^verbatim>\<open>json.Marshal\<close> writes it.\<close>

definition demo_blob :: blob where
  "demo_blob = \<lparr>bytes = json_text [(''jobName'', ''demo'')], parsed = JObject [(''jobName'', ''demo'')]\<rparr>"

text \<open>
  The job struct of the sample job as a caller holds it once the job has finished, a job
  of user bob whose metadata carries the job name \<^verbatim>\<open>demo\<close>, and an archive client
  that fails for every job.
\<close>

definition sample_job :: Job where
  "sample_job =
     \<lparr>ID = 1, JobID = 4711, User = ''alice'', Project = ''p1'', Cluster = ''fritz'',
      SubCluster = ''main'', StartTimeUnix = 1000000, Partition = ''work'', ArrayJobId = 0,
      NumNodes = 2, NumHWThreads = 144, NumAcc = 0, Exclusive = 1,
      MonitoringStatus = MonitoringStatusRunningOrArchiving, SMT = 1, State = ''completed'',
      Duration = 3600, Walltime = 3000, RawResources = None, Resources = [],
      StartTime = 1000000000000000, MetaData = None, RawMetaData = None\<rparr>"

definition bob_row :: job_row where
  "bob_row = sample_row\<lparr>job_id := 2, job_job_id := 4712, job_user := ''bob'',
                         job_project := ''p2'', job_meta_data := Some demo_blob\<rparr>"

definition failing_client :: archive_client where
  "failing_client r job = Inl (ErrOther ''metric store unreachable'')"





section \<open>Properties\<close>

subsection \<open>Helper facts\<close>


lemma QueryRow_Nil: "QueryRow [] = Inl ErrNoRows"
  by (simp add: QueryRow_def)





subsection \<open>FindColumnValue is closed to callers without an elevated role\<close>



subsection \<open>StopJobsExceedingWalltimeBy\<close>

text \<open>
  Claim C5. \<^verbatim>\<open>StopJobsExceedingWalltimeBy\<close> returns no error, keeps the number and the
  order of the rows, and row by row: a job that is running, has a walltime above 0 and has
  been running for more than walltime plus grace seconds gets monitoring status
  archiving-failed, duration 0 and state failed; every other row stays as it is. With a
  grace of 60 seconds, a running job with walltime 3000 started 3700 seconds ago is
  stopped, and one started 3000 seconds ago is unchanged.
\<close>

theorem StopJobsExceedingWalltimeBy_transitions:
  assumes "StopJobsExceedingWalltimeBy now db seconds = (db', err)"
  shows "err = None \<and> users db' = users db \<and> length (jobs db') = length (jobs db) \<and>
    (\<forall>i < length (jobs db).
       (if job_job_state (jobs db ! i) = ''running'' \<and> job_walltime (jobs db ! i) > 0 \<and>
           Unix now - job_start_time (jobs db ! i) > job_walltime (jobs db ! i) + seconds
        then jobs db' ! i =
               (jobs db ! i)\<lparr>job_monitoring_status := MonitoringStatusArchivingFailed,
                               job_duration := 0, job_job_state := JobStateFailed\<rparr>
        else jobs db' ! i = jobs db ! i) \<and>
       (seconds = 60 \<and> job_job_state (jobs db ! i) = ''running'' \<and>
        job_walltime (jobs db ! i) = 3000 \<and>
        job_start_time (jobs db ! i) = Unix now - 3700 \<longrightarrow>
          jobs db' ! i =
            (jobs db ! i)\<lparr>job_monitoring_status := MonitoringStatusArchivingFailed,
                            job_duration := 0, job_job_state := JobStateFailed\<rparr>) \<and>
       (seconds = 60 \<and> job_job_state (jobs db ! i) = ''running'' \<and>
        job_walltime (jobs db ! i) = 3000 \<and>
        job_start_time (jobs db ! i) = Unix now - 3000 \<longrightarrow>
          jobs db' ! i = jobs db ! i))"
  using assms
  by (auto simp: StopJobsExceedingWalltimeBy_def exceeds_walltime_def mark_stopped_def)

theorem StopJobsExceedingWalltimeBy_witness:
  "StopJobsExceedingWalltimeBy 1003700000000000
      \<lparr>jobs = [sample_row, sample_row\<lparr>job_id := 2, job_start_time := 1000700\<rparr>], users = []\<rparr> 60
   = (\<lparr>jobs = [sample_row\<lparr>job_monitoring_status := MonitoringStatusArchivingFailed,
                            job_duration := 0, job_job_state := JobStateFailed\<rparr>,
               sample_row\<lparr>job_id := 2, job_start_time := 1000700\<rparr>], users = []\<rparr>, None)
   \<and> Unix 1003700000000000 - job_start_time sample_row = 3700
   \<and> Unix 1003700000000000
       - job_start_time (sample_row\<lparr>job_id := 2, job_start_time := 1000700\<rparr>) = 3000
   \<and> job_walltime sample_row = 3000 \<and> job_job_state sample_row = ''running''"
proof -
  obtain db' err where r: "StopJobsExceedingWalltimeBy 1003700000000000
      \<lparr>jobs = [sample_row, sample_row\<lparr>job_id := 2, job_start_time := 1000700\<rparr>], users = []\<rparr> 60
      = (db', err)"
    by (cases "StopJobsExceedingWalltimeBy 1003700000000000
      \<lparr>jobs = [sample_row, sample_row\<lparr>job_id := 2, job_start_time := 1000700\<rparr>], users = []\<rparr> 60")
  have u: "Unix 1003700000000000 = 1003700"
    by (simp add: Unix_def)
  have s: "job_start_time sample_row = 1000000" "job_walltime sample_row = 3000"
     "job_job_state sample_row = ''running''"
    by (simp_all add: sample_row_def)
  note t = StopJobsExceedingWalltimeBy_transitions [OF r]
  from t have e: "err = None" and us: "users db' = []" and len: "length (jobs db') = 2"
    by simp_all
  from t have "jobs db' ! 0 = sample_row\<lparr>job_monitoring_status := MonitoringStatusArchivingFailed,
                            job_duration := 0, job_job_state := JobStateFailed\<rparr>"
    by (simp add: u s)
  moreover from t have "jobs db' ! 1 = sample_row\<lparr>job_id := 2, job_start_time := 1000700\<rparr>"
    by (simp add: u s)
  ultimately have "jobs db' = [sample_row\<lparr>job_monitoring_status := MonitoringStatusArchivingFailed,
                            job_duration := 0, job_job_state := JobStateFailed\<rparr>,
               sample_row\<lparr>job_id := 2, job_start_time := 1000700\<rparr>]"
    using len by (auto simp: list_eq_iff_nth_eq less_Suc_eq numeral_2_eq_2)
  with us have "db' = \<lparr>jobs = [sample_row\<lparr>job_monitoring_status := MonitoringStatusArchivingFailed,
                            job_duration := 0, job_job_state := JobStateFailed\<rparr>,
               sample_row\<lparr>job_id := 2, job_start_time := 1000700\<rparr>], users = []\<rparr>"
    by (cases db') simp
  with r e show ?thesis by (simp add: u s)
qed

subsection \<open>The cluster hint of FindUserOrProjectOrJobname\<close>



subsection \<open>The duration of a running job is derived when the row is read\<close>







subsection \<open>The archiving worker\<close>

lemma FetchMetadata_frame:
  assumes "FetchMetadata r job = (res, job', r')"
  shows "DB r' = DB r \<and> archiveChannel r' = archiveChannel r \<and>
         archivePending r' = archivePending r \<and> driver r' = driver r \<and> ID job' = ID job"
  using assms
  by (auto simp: FetchMetadata_def Let_def cachekey_def
           split: option.splits sum.splits if_splits prod.splits)

text \<open>
  Claim C3. Let the worker receive a job, \<open>rest\<close> being what the channel still holds, let
  the metadata step pass and the archive client fail for the job. Then the body of the loop
  ends without a panic; in the job table exactly the rows of that job get monitoring status
  archiving-failed and nothing else changes, so the six summary-statistic columns of every
  row are as before; the job is not sent again (the channel holds \<open>rest\<close>) and the
  pending counter is untouched; and the worker goes on with the rest of the queue from the
  state reached.
\<close>

theorem archive_failure_marks_failed_and_continues:
  assumes fetched: "FetchMetadata (r\<lparr>archiveChannel := rest\<rparr>) job = (Inr m, job', r')"
      and failed: "ArchiveJob r' job' = Inl err"
  shows "\<exists>r''. archive_job ArchiveJob job (r\<lparr>archiveChannel := rest\<rparr>) = Return r''
     \<and> jobs (DB r'') = map (\<lambda>row. if job_id row = ID job
                                 then row\<lparr>job_monitoring_status := MonitoringStatusArchivingFailed\<rparr>
                                 else row) (jobs (DB r))
     \<and> map job_flops_any_avg (jobs (DB r'')) = map job_flops_any_avg (jobs (DB r))
     \<and> map job_mem_used_max (jobs (DB r'')) = map job_mem_used_max (jobs (DB r))
     \<and> map job_mem_bw_avg (jobs (DB r'')) = map job_mem_bw_avg (jobs (DB r))
     \<and> map job_load_avg (jobs (DB r'')) = map job_load_avg (jobs (DB r))
     \<and> map job_net_bw_avg (jobs (DB r'')) = map job_net_bw_avg (jobs (DB r))
     \<and> map job_file_bw_avg (jobs (DB r'')) = map job_file_bw_avg (jobs (DB r))
     \<and> archiveChannel r'' = rest
     \<and> archivePending r'' = archivePending r
     \<and> worker_loop ArchiveJob (job # rest) r = worker_loop ArchiveJob rest r''"
proof -
  from FetchMetadata_frame [OF fetched]
  have fr: "DB r' = DB r" "archiveChannel r' = rest" "archivePending r' = archivePending r"
    "ID job' = ID job" by simp_all
  define r'' where "r'' = r'\<lparr>DB := fst (UpdateMonitoringStatus (DB r') (ID job') MonitoringStatusArchivingFailed)\<rparr>"
  have a: "archive_job ArchiveJob job (r\<lparr>archiveChannel := rest\<rparr>) = Return r''"
    using fetched failed by (simp add: archive_job_def r''_def)
  have j: "jobs (DB r'') = map (\<lambda>row. if job_id row = ID job
                                 then row\<lparr>job_monitoring_status := MonitoringStatusArchivingFailed\<rparr>
                                 else row) (jobs (DB r))"
    by (simp add: r''_def UpdateMonitoringStatus_def fr)
  have w: "worker_loop ArchiveJob (job # rest) r = worker_loop ArchiveJob rest r''"
    using a by simp
  have c: "archiveChannel r'' = rest" "archivePending r'' = archivePending r"
    by (simp_all add: r''_def fr)
  show ?thesis
    using a w c unfolding j by (intro exI [of _ r'']) (simp add: j comp_def if_distrib [of job_flops_any_avg] cong: if_cong)
qed


lemma sample_fetch:
  "FetchMetadata (sample_repo\<lparr>archiveChannel := []\<rparr>) sample_job
     = (Inr None, sample_job, sample_repo)"
  by (simp add: FetchMetadata_def sample_repo_def sample_job_def sample_row_def cache_Get_def
        QueryRow_def cachekey_def)

theorem archive_failure_witness:
  "\<exists>r''. archive_job failing_client sample_job (sample_repo\<lparr>archiveChannel := []\<rparr>) = Return r''
     \<and> jobs (DB r'') = [sample_row\<lparr>job_monitoring_status := MonitoringStatusArchivingFailed\<rparr>]
     \<and> worker_loop failing_client [sample_job] sample_repo = Return r''"
proof -
  have f: "failing_client sample_repo sample_job = Inl (ErrOther ''metric store unreachable'')"
    by (simp add: failing_client_def)
  from archive_failure_marks_failed_and_continues [where r = sample_repo and rest = "[]" and ArchiveJob = failing_client, OF sample_fetch f]
  obtain r'' where
    "archive_job failing_client sample_job (sample_repo\<lparr>archiveChannel := []\<rparr>) = Return r''"
    "jobs (DB r'') = map (\<lambda>row. if job_id row = ID sample_job
                                 then row\<lparr>job_monitoring_status := MonitoringStatusArchivingFailed\<rparr>
                                 else row) (jobs (DB sample_repo))"
    "worker_loop failing_client (sample_job # []) sample_repo = worker_loop failing_client [] r''"
    by blast
  then show ?thesis
    by (intro exI [of _ r'']) (simp add: sample_repo_def sample_job_def sample_row_def)
qed

text \<open>
  Claim C2, evaluated on a job whose archive client fails: after \<^verbatim>\<open>TriggerArchiving\<close>
  the counter is 1; the worker empties the channel and sets the job's monitoring status to
  archiving-failed, which is terminal, but the \<^verbatim>\<open>continue\<close> of the failure branch
  skips \<^verbatim>\<open>archivePending.Done()\<close>: the counter stays 1 with nothing left to process,
  and \<^verbatim>\<open>WaitForArchiving\<close> blocks.
\<close>

theorem WaitForArchiving_blocks_after_failed_archive:
  "(case TriggerArchiving sample_repo sample_job of
      None \<Rightarrow> False
    | Some r1 \<Rightarrow>
        archivePending r1 = 1 \<and> archiveChannel r1 = [sample_job] \<and>
        (case archivingWorker failing_client r1 of
           Panic \<Rightarrow> False
         | Return r2 \<Rightarrow>
             archiveChannel r2 = [] \<and>
             map job_monitoring_status (jobs (DB r2)) = [MonitoringStatusArchivingFailed] \<and>
             archivePending r2 = 1 \<and>
             WaitForArchiving r2 = None))"
proof -
  have t: "TriggerArchiving sample_repo sample_job
            = Some (sample_repo\<lparr>archivePending := 1, archiveChannel := [sample_job]\<rparr>)"
    by (simp add: TriggerArchiving_def sample_repo_def)
  have f: "FetchMetadata (sample_repo\<lparr>archivePending := 1, archiveChannel := []\<rparr>) sample_job
     = (Inr None, sample_job, sample_repo\<lparr>archivePending := 1, archiveChannel := []\<rparr>)"
    by (simp add: FetchMetadata_def sample_repo_def sample_job_def sample_row_def cache_Get_def
        QueryRow_def cachekey_def)
  have a: "archive_job failing_client sample_job (sample_repo\<lparr>archivePending := 1, archiveChannel := []\<rparr>)
      = Return (sample_repo\<lparr>archivePending := 1, archiveChannel := [],
          DB := fst (UpdateMonitoringStatus (DB sample_repo) 1 MonitoringStatusArchivingFailed)\<rparr>)"
    by (simp add: archive_job_def f failing_client_def) (simp add: sample_repo_def sample_job_def)
  have w: "archivingWorker failing_client (sample_repo\<lparr>archivePending := 1, archiveChannel := [sample_job]\<rparr>)
      = Return (sample_repo\<lparr>archivePending := 1, archiveChannel := [],
          DB := fst (UpdateMonitoringStatus (DB sample_repo) 1 MonitoringStatusArchivingFailed)\<rparr>)"
    using a by (simp add: archivingWorker_def)
  show ?thesis
    by (simp only: t w option.case outcome.case)
       (simp add: WaitForArchiving_def UpdateMonitoringStatus_def sample_repo_def sample_row_def)
qed

subsection \<open>The metadata step of FindUserOrProjectOrJobname\<close>

text \<open>
  Claim C1, evaluated for the plain user alice and the search term \<^verbatim>\<open>demo\<close>. The three
  column lookups are refused, but the query on the stored metadata runs over the whole job
  table with no security check: with the job of user bob in the table the call returns a
  hit with the first letter of the cluster of bob's job, without it
  \<^verbatim>\<open>ErrNotFound\<close>. The result depends on a row that belongs to another user and
  another project.
\<close>

theorem FindUserOrProjectOrJobname_reads_other_users_metadata:
  "job_user bob_row \<noteq> Username alice \<and> job_project bob_row \<noteq> job_project sample_row \<and>
   \<not> HasAnyRole alice [RoleAdmin, RoleSupport, RoleManager] \<and>
   FindUserOrProjectOrJobname (sample_repo\<lparr>DB := \<lparr>jobs = [sample_row, bob_row], users = []\<rparr>\<rparr>)
      \<lparr>ctx_user = Some alice, ctx_fields = []\<rparr> ''demo'' = Return ('''', '''', ''f'', None) \<and>
   FindUserOrProjectOrJobname (sample_repo\<lparr>DB := \<lparr>jobs = [sample_row], users = []\<rparr>\<rparr>)
      \<lparr>ctx_user = Some alice, ctx_fields = []\<rparr> ''demo'' = Return ('''', '''', '''', Some ErrNotFound)"
proof -
  have n: "\<not> HasAnyRole alice [RoleAdmin, RoleSupport, RoleManager]"
    by (simp add: HasAnyRole_def alice_def)
  have f: "\<And>r t s w l. fst (FindColumnValue r alice ''demo'' t s w l) = ''''"
    using n by (simp add: FindColumnValue_def Let_def)
  have g: "GetUser \<lparr>ctx_user = Some alice, ctx_fields = []\<rparr> = Some alice"
    by (simp add: GetUser_def)
  have l: "like_match ''%demo%'' (json_text [(''jobName'', ''demo'')])"
    by (simp add: json_text_def json_quote_def json_escape_def)
  have a: "Atoi ''demo'' = Inl (ErrOther ''invalid syntax'')"
    by (simp add: Atoi_def is_digit_def)
  have b1: "blob_like ''%demo%'' (job_meta_data bob_row)"
    using l by (simp add: blob_like_def demo_blob_def bob_row_def)
  have b2: "\<not> blob_like ''%demo%'' (job_meta_data sample_row)"
    by (simp add: blob_like_def sample_row_def)
  have c: "job_cluster bob_row = ''fritz''" by (simp add: bob_row_def sample_row_def)
  have "FindUserOrProjectOrJobname (sample_repo\<lparr>DB := \<lparr>jobs = [sample_row, bob_row], users = []\<rparr>\<rparr>)
      \<lparr>ctx_user = Some alice, ctx_fields = []\<rparr> ''demo'' = Return ('''', '''', ''f'', None)"
    by (simp add: FindUserOrProjectOrJobname_def a g f b1 b2 QueryRow_def c)
  moreover have "FindUserOrProjectOrJobname (sample_repo\<lparr>DB := \<lparr>jobs = [sample_row], users = []\<rparr>\<rparr>)
      \<lparr>ctx_user = Some alice, ctx_fields = []\<rparr> ''demo'' = Return ('''', '''', '''', Some ErrNotFound)"
    by (simp add: FindUserOrProjectOrJobname_def a g f b2 QueryRow_def)
  ultimately show ?thesis using n
    by (simp add: bob_row_def alice_def sample_row_def)
qed

subsection \<open>Metadata: update, then fetch\<close>







lemma cachekey_update [simp]:
  "cachekey (j\<lparr>MetaData := m\<rparr>) = cachekey j" "cachekey (j\<lparr>RawMetaData := b\<rparr>) = cachekey j"
  by (simp_all add: cachekey_def)










subsection \<open>JobsStatistics: core hours by cluster\<close>

lemma set_sql_distinct [simp]: "set (sql_distinct xs) = set xs"
  by (induction xs rule: sql_distinct.induct) auto

lemma distinct_sql_distinct [simp]: "distinct (sql_distinct xs)"
  by (induction xs rule: sql_distinct.induct) auto







lemma sql_round_hours_0 [simp]: "sql_round_hours drv 0 = 0"
  by (simp add: sql_round_hours_def)













subsection \<open>JobsStatistics: entries missing from the statistics map\<close>










end
